theory Spec2Isabelle
  imports Main
begin

section \<open>The multi-factor enrollment wizard of multifactordialog.tsx\<close>

subsection \<open>Data model\<close>

text \<open>
  \<^verbatim>\<open>type AuthenticatorType = "app" | "sms" | "email"\<close>: the three string literals become
  the three constructors. All three strings are truthy in JavaScript.
\<close>

datatype AuthenticatorType = App | Sms | Email

text \<open>
  The keys of the two step tables. \<^verbatim>\<open>StepKeys = keyof typeof steps\<close> has four
  members, \<^verbatim>\<open>FallbackStepKeys = keyof typeof fallbackSteps\<close> has three.
\<close>

datatype StepKeys = Choose | Setup | RecoveryCodes | Finish

datatype FallbackStepKeys = FChoose | FSetup | FFinish

text \<open>
  An entry of the method catalog \<^verbatim>\<open>Authenticators\<close>. The icon is a rendering
  component and is left out; \<^verbatim>\<open>recommended?: boolean\<close> is optional.
\<close>

record Authenticator =
  auth_type :: AuthenticatorType
  auth_title :: string
  auth_subtitle :: string
  auth_recommended :: "bool option"

text \<open>
  The values that travel through \<^verbatim>\<open>onNext(...args: any[])\<close>. The step components
  pass a catalog entry (\<^verbatim>\<open>ChooseAuthenticator\<close>), a method tag
  (\<^verbatim>\<open>AuthenticatorSelector\<close>, \<^verbatim>\<open>BackupRecoveryCodes\<close>) or
  \<^verbatim>\<open>undefined\<close> (an index outside \<^verbatim>\<open>filteredAuthenticators\<close>, a missing argument).
\<close>

datatype jsval = JSUndefined | JSMethod AuthenticatorType | JSAuthenticator Authenticator

text \<open>A thrown JavaScript error, with the text \<^verbatim>\<open>error.message\<close> reads.\<close>

datatype jserror = TypeError string

fun message :: "jserror \<Rightarrow> string" where
  "message (TypeError m) = m"

text \<open>
  The body of a step: which component the closure \<^verbatim>\<open>component\<close> renders and
  the props it closes over. \<^verbatim>\<open>Fallback2FAEnabled\<close> takes the primary method
  first and the fallback method second.
\<close>

datatype StepComponent =
    ChooseAuthenticator "AuthenticatorType list"
  | AuthenticatorSelector jsval bool
  | BackupRecoveryCodes jsval
  | TwoFactorEnabled jsval
  | Fallback2FAEnabled jsval jsval

text \<open>
  \<^verbatim>\<open>type Step = { title?, description?, component?, next?, cancellable? }\<close>. Every
  field is optional: \<open>None\<close> is \<^verbatim>\<open>undefined\<close>. The field \<^verbatim>\<open>next\<close> is called
  \<open>next_key\<close> here.
\<close>

record Step =
  title :: "string option"
  description :: "string option"
  component :: "StepComponent option"
  next_key :: "StepKeys option"
  cancellable :: "bool option"

text \<open>
  A reference to one factory function of the tables \<^verbatim>\<open>steps\<close> and
  \<^verbatim>\<open>fallbackSteps\<close>: the value of \<^verbatim>\<open>nextStepCreator\<close>.
\<close>

datatype StepCreator = StepsCreator StepKeys | FallbackStepsCreator FallbackStepKeys

text \<open>
  What the dialog does to the outside, in the order it happens: a call of the
  \<^verbatim>\<open>onClose\<close> prop, a call of a step factory with its argument list, and the calls
  of the verification service \<^verbatim>\<open>db.mfa\<close>.
\<close>

datatype event =
    OnClose
  | Created StepCreator "jsval list"
  | MfaEnable jsval string
  | MfaEnableFallback jsval string
  | MfaSetup AuthenticatorType "string option"
  | MfaCodes

text \<open>
  The state of one \<^verbatim>\<open>MultifactorDialog\<close>: the two \<^verbatim>\<open>useState\<close> cells
  \<^verbatim>\<open>step\<close> and \<^verbatim>\<open>error\<close>, and the record \<open>events\<close> of what the dialog has
  done to the outside so far.
\<close>

record MultifactorDialog =
  step :: Step
  error :: "string option"
  events :: "event list"

text \<open>
  The verification service \<^verbatim>\<open>db.mfa\<close>. A call that rejects with
  \<^verbatim>\<open>Error(msg)\<close> is \<open>Inl msg\<close>. \<^verbatim>\<open>codes()\<close> resolves to an array of codes
  (\<open>Some\<close>, also for the empty array, which is truthy) or to no value
  (\<open>None\<close>: \<^verbatim>\<open>undefined\<close> or \<^verbatim>\<open>null\<close>).
\<close>

record mfa =
  mfa_enable :: "jsval \<Rightarrow> string \<Rightarrow> string + unit"
  mfa_enableFallback :: "jsval \<Rightarrow> string \<Rightarrow> string + unit"
  mfa_setup :: "AuthenticatorType \<Rightarrow> string option \<Rightarrow> string + unit"
  mfa_codes :: "string + string list option"

subsection \<open>The method catalog\<close>

definition defaultAuthenticators :: "AuthenticatorType list" where
  "defaultAuthenticators = [App, Sms, Email]"

definition Authenticators :: "Authenticator list" where
  "Authenticators =
    [\<lparr>auth_type = App,
      auth_title = ''Set up using an Authenticator app'',
      auth_subtitle = ''Use an authenticator app like Aegis or Raivo Authenticator to get the authentication codes.'',
      auth_recommended = Some True\<rparr>,
     \<lparr>auth_type = Sms,
      auth_title = ''Set up using SMS'',
      auth_subtitle = ''Notesnook will send you an SMS text with the 2FA code at login.'',
      auth_recommended = None\<rparr>,
     \<lparr>auth_type = Email,
      auth_title = ''Set up using Email'',
      auth_subtitle = ''Notesnook will send you the 2FA code on your email at login.'',
      auth_recommended = None\<rparr>]"

subsection \<open>The step tables\<close>

text \<open>\<^verbatim>\<open>i !== primaryMethod\<close> for a method tag \<open>i\<close> and any value.\<close>

fun differs :: "AuthenticatorType \<Rightarrow> jsval \<Rightarrow> bool" where
  "differs i (JSMethod m) = (i \<noteq> m)"
| "differs i JSUndefined = True"
| "differs i (JSAuthenticator a) = True"

text \<open>
  \<^verbatim>\<open>catalog.filter((i) => i !== primaryMethod)\<close>, the list the fallback
  \<^verbatim>\<open>choose\<close> step hands to \<^verbatim>\<open>ChooseAuthenticator\<close>; the source applies it to
  \<^verbatim>\<open>defaultAuthenticators\<close>.
\<close>

definition candidates :: "AuthenticatorType list \<Rightarrow> jsval \<Rightarrow> AuthenticatorType list" where
  "candidates catalog primaryMethod = filter (\<lambda>i. differs i primaryMethod) catalog"

text \<open>The phrase chosen by the nested conditional in \<^verbatim>\<open>steps.recoveryCodes\<close>.\<close>

fun lostDevice :: "jsval \<Rightarrow> string" where
  "lostDevice (JSMethod Email) = ''email''"
| "lostDevice (JSMethod Sms) = ''phone''"
| "lostDevice v = ''auth app''"

definition steps_choose :: Step where
  "steps_choose =
    \<lparr>title = Some ''Protect your notes by enabling 2FA'',
     description = Some ''Choose how you want to receive your authentication codes.'',
     component = Some (ChooseAuthenticator defaultAuthenticators),
     next_key = Some Setup,
     cancellable = Some True\<rparr>"

text \<open>
  \<^verbatim>\<open>steps.setup(authenticator)\<close> reads \<^verbatim>\<open>authenticator.title\<close> first: on
  \<^verbatim>\<open>undefined\<close> that throws a TypeError, on a string it yields \<^verbatim>\<open>undefined\<close>.
\<close>

fun steps_setup :: "jsval \<Rightarrow> jserror + Step" where
  "steps_setup JSUndefined =
     Inl (TypeError ''Cannot read properties of undefined (reading 'title')'')"
| "steps_setup (JSMethod m) =
     Inr \<lparr>title = None, description = None,
          component = Some (AuthenticatorSelector JSUndefined False),
          next_key = Some RecoveryCodes, cancellable = None\<rparr>"
| "steps_setup (JSAuthenticator a) =
     Inr \<lparr>title = Some (auth_title a), description = Some (auth_subtitle a),
          component = Some (AuthenticatorSelector (JSMethod (auth_type a)) False),
          next_key = Some RecoveryCodes, cancellable = None\<rparr>"

definition steps_recoveryCodes :: "jsval \<Rightarrow> Step" where
  "steps_recoveryCodes authenticatorType =
    \<lparr>title = Some ''Save your recovery codes'',
     description = Some (''If you lose access to your '' @ lostDevice authenticatorType @
       '', you can login to Notesnook using your recovery codes. Each code can only be used once!''),
     component = Some (BackupRecoveryCodes authenticatorType),
     next_key = Some Finish,
     cancellable = None\<rparr>"

definition steps_finish :: "jsval \<Rightarrow> Step" where
  "steps_finish authenticatorType =
    \<lparr>title = None, description = None,
     component = Some (TwoFactorEnabled authenticatorType),
     next_key = None, cancellable = None\<rparr>"

definition fallbackSteps_choose :: "jsval \<Rightarrow> Step" where
  "fallbackSteps_choose primaryMethod =
    \<lparr>title = Some ''Add a fallback 2FA method'',
     description = Some ''A fallback method helps you get your 2FA codes on an alternative device in case you lose your primary device.'',
     component = Some (ChooseAuthenticator (candidates defaultAuthenticators primaryMethod)),
     next_key = Some Setup,
     cancellable = Some True\<rparr>"

fun fallbackSteps_setup :: "jsval \<Rightarrow> jserror + Step" where
  "fallbackSteps_setup JSUndefined =
     Inl (TypeError ''Cannot read properties of undefined (reading 'title')'')"
| "fallbackSteps_setup (JSMethod m) =
     Inr \<lparr>title = None, description = None,
          component = Some (AuthenticatorSelector JSUndefined True),
          next_key = Some Finish, cancellable = Some True\<rparr>"
| "fallbackSteps_setup (JSAuthenticator a) =
     Inr \<lparr>title = Some (auth_title a), description = Some (auth_subtitle a),
          component = Some (AuthenticatorSelector (JSMethod (auth_type a)) True),
          next_key = Some Finish, cancellable = Some True\<rparr>"

definition fallbackSteps_finish :: "jsval \<Rightarrow> jsval \<Rightarrow> Step" where
  "fallbackSteps_finish fallbackMethod primaryMethod =
    \<lparr>title = None, description = None,
     component = Some (Fallback2FAEnabled primaryMethod fallbackMethod),
     next_key = None, cancellable = None\<rparr>"

text \<open>
  Indexing the tables with a step key: \<^verbatim>\<open>steps[k]\<close> is always a function,
  \<^verbatim>\<open>fallbackSteps[k]\<close> is \<^verbatim>\<open>undefined\<close> for \<^verbatim>\<open>"recoveryCodes"\<close>.
\<close>

definition steps :: "StepKeys \<Rightarrow> StepCreator option" where
  "steps k = Some (StepsCreator k)"

fun fallbackSteps :: "StepKeys \<Rightarrow> StepCreator option" where
  "fallbackSteps Choose = Some (FallbackStepsCreator FChoose)"
| "fallbackSteps Setup = Some (FallbackStepsCreator FSetup)"
| "fallbackSteps Finish = Some (FallbackStepsCreator FFinish)"
| "fallbackSteps RecoveryCodes = None"

text \<open>The i-th actual argument of a call; a missing one is \<^verbatim>\<open>undefined\<close>.\<close>

definition arg :: "jsval list \<Rightarrow> nat \<Rightarrow> jsval" where
  "arg args i = (if i < length args then args ! i else JSUndefined)"

text \<open>
  Calling a factory with an argument list: each factory reads its declared
  parameters by position and ignores the rest.
\<close>

fun call :: "StepCreator \<Rightarrow> jsval list \<Rightarrow> jserror + Step" where
  "call (StepsCreator Choose) args = Inr steps_choose"
| "call (StepsCreator Setup) args = steps_setup (arg args 0)"
| "call (StepsCreator RecoveryCodes) args = Inr (steps_recoveryCodes (arg args 0))"
| "call (StepsCreator Finish) args = Inr (steps_finish (arg args 0))"
| "call (FallbackStepsCreator FChoose) args = Inr (fallbackSteps_choose (arg args 0))"
| "call (FallbackStepsCreator FSetup) args = fallbackSteps_setup (arg args 0)"
| "call (FallbackStepsCreator FFinish) args =
     Inr (fallbackSteps_finish (arg args 0) (arg args 1))"

subsection \<open>The wizard controller: MultifactorDialog\<close>

text \<open>
  \<^verbatim>\<open>useState(primaryMethod ? fallbackSteps.choose(primaryMethod) : steps.choose())\<close>
  and \<^verbatim>\<open>useState<string>()\<close>.
\<close>

definition init :: "AuthenticatorType option \<Rightarrow> MultifactorDialog" where
  "init primaryMethod =
    \<lparr>step = (case primaryMethod of
               Some p \<Rightarrow> fallbackSteps_choose (JSMethod p)
             | None \<Rightarrow> steps_choose),
     error = None,
     events = []\<rparr>"

definition setStep :: "Step \<Rightarrow> MultifactorDialog \<Rightarrow> MultifactorDialog" where
  "setStep s st = st\<lparr>step := s\<rparr>"

definition setError :: "string \<Rightarrow> MultifactorDialog \<Rightarrow> MultifactorDialog" where
  "setError m st = st\<lparr>error := Some m\<rparr>"

definition onClose :: "MultifactorDialog \<Rightarrow> MultifactorDialog" where
  "onClose st = st\<lparr>events := events st @ [OnClose]\<rparr>"

text \<open>
  \<^verbatim>\<open>step.next !== "recoveryCodes" && primaryMethod ? fallbackSteps[step.next] : steps[step.next]\<close>
\<close>

definition nextStepCreator :: "AuthenticatorType option \<Rightarrow> StepKeys \<Rightarrow> StepCreator option" where
  "nextStepCreator primaryMethod k =
     (if k \<noteq> RecoveryCodes \<and> primaryMethod \<noteq> None then fallbackSteps k else steps k)"

text \<open>
  The \<^verbatim>\<open>onNext\<close> handler given to the step component. A factory that throws
  ends the handler before \<^verbatim>\<open>setStep\<close>: the result is the error and the state
  stays as it was. Calling an \<^verbatim>\<open>undefined\<close> creator is a TypeError too.
\<close>

definition onNext ::
  "AuthenticatorType option \<Rightarrow> jsval list \<Rightarrow> MultifactorDialog \<Rightarrow> jserror + MultifactorDialog" where
  "onNext primaryMethod args st =
     (case next_key (step st) of
        None \<Rightarrow> Inr (onClose st)
      | Some k \<Rightarrow>
          (case nextStepCreator primaryMethod k of
             None \<Rightarrow> Inl (TypeError ''nextStepCreator is not a function'')
           | Some creator \<Rightarrow>
               (let args' = (case primaryMethod of
                               Some p \<Rightarrow> args @ [JSMethod p]
                             | None \<Rightarrow> args)
                in case call creator args' of
                     Inl e \<Rightarrow> Inl e
                   | Inr nextStep \<Rightarrow>
                       Inr (setStep nextStep
                              (st\<lparr>events := events st @ [Created creator args']\<rparr>)))))"

text \<open>
  \<^verbatim>\<open>negativeButton = step.cancellable ? { text: "Cancel", onClick: onClose } : null\<close>:
  the handler of the Cancel button, when there is one.
\<close>

definition negativeButton :: "Step \<Rightarrow> (MultifactorDialog \<Rightarrow> MultifactorDialog) option" where
  "negativeButton s = (if cancellable s = Some True then Some onClose else None)"

text \<open>
  Modelled from the spec: the \<^verbatim>\<open>Dialog\<close> component that receives
  \<^verbatim>\<open>negativeButton\<close> is not among the sources. A cancel request runs the button's
  handler; with no button (\<^verbatim>\<open>null\<close>) there is nothing to run. The button is the
  only prop through which \<^verbatim>\<open>Dialog\<close> gets hold of \<^verbatim>\<open>onClose\<close>.
\<close>

definition cancel :: "MultifactorDialog \<Rightarrow> MultifactorDialog" where
  "cancel st = (case negativeButton (step st) of None \<Rightarrow> st | Some onClick \<Rightarrow> onClick st)"

text \<open>What the dialog renders under the step: \<^verbatim>\<open>error && <Text>{error}</Text>\<close>.\<close>

definition shownError :: "MultifactorDialog \<Rightarrow> string option" where
  "shownError st = (case error st of None \<Rightarrow> None | Some m \<Rightarrow> if m = [] then None else Some m)"

text \<open>
  The events a session receives from its step bodies and buttons. An
  \<^verbatim>\<open>onNext\<close> that throws leaves the state as it was.
\<close>

datatype action = Next "jsval list" | ReportError string | Cancel

fun dispatch :: "AuthenticatorType option \<Rightarrow> MultifactorDialog \<Rightarrow> action \<Rightarrow> MultifactorDialog" where
  "dispatch pm st (Next args) = (case onNext pm args st of Inl e \<Rightarrow> st | Inr st' \<Rightarrow> st')"
| "dispatch pm st (ReportError m) = setError m st"
| "dispatch pm st Cancel = cancel st"

definition run :: "AuthenticatorType option \<Rightarrow> action list \<Rightarrow> MultifactorDialog" where
  "run pm acts = foldl (dispatch pm) (init pm) acts"

subsection \<open>The step bodies\<close>

text \<open>
  \<^verbatim>\<open>ChooseAuthenticator\<close>: the catalog entries of the offered methods
  (\<^verbatim>\<open>Authenticators.find(...)\<close> for each) and the submit handler, which passes the
  entry at the selected index on; outside the list that is \<^verbatim>\<open>undefined\<close>.
\<close>

definition filteredAuthenticators :: "AuthenticatorType list \<Rightarrow> Authenticator option list" where
  "filteredAuthenticators authenticators =
     map (\<lambda>a. find (\<lambda>auth. auth_type auth = a) Authenticators) authenticators"

definition selectedAuthenticator :: "AuthenticatorType list \<Rightarrow> nat \<Rightarrow> jsval" where
  "selectedAuthenticator authenticators selected =
     (if selected < length (filteredAuthenticators authenticators)
      then (case filteredAuthenticators authenticators ! selected of
              Some a \<Rightarrow> JSAuthenticator a
            | None \<Rightarrow> JSUndefined)
      else JSUndefined)"

definition ChooseAuthenticator_onSubmit ::
  "AuthenticatorType option \<Rightarrow> AuthenticatorType list \<Rightarrow> nat \<Rightarrow> MultifactorDialog
     \<Rightarrow> jserror + MultifactorDialog" where
  "ChooseAuthenticator_onSubmit primaryMethod authenticators selected st =
     onNext primaryMethod [selectedAuthenticator authenticators selected] st"

text \<open>
  \<^verbatim>\<open>VerifyAuthenticatorForm\<close>'s submit handler. \<open>code\<close> is
  \<^verbatim>\<open>form.get("code")\<close>: \<open>None\<close> when the form has no such entry.
\<close>

definition VerifyAuthenticatorForm_onSubmit ::
  "(string \<Rightarrow> 's \<Rightarrow> 's) \<Rightarrow> string option \<Rightarrow> 's \<Rightarrow> 's" where
  "VerifyAuthenticatorForm_onSubmit submitCode code st =
     (case code of
        None \<Rightarrow> st
      | Some c \<Rightarrow> if c = [] \<or> length c \<noteq> 6 then st else submitCode c st)"

text \<open>
  The dialog renders \<^verbatim>\<open><step.component onNext={...} onError={setError} onClose={onClose} />\<close>,
  and each \<^verbatim>\<open>component\<close> closure of the step tables forwards the props it
  destructures. The closures of \<^verbatim>\<open>choose\<close> and \<^verbatim>\<open>setup\<close> (both tables) take
  \<^verbatim>\<open>{ onNext }\<close> only and the fallback \<^verbatim>\<open>finish\<close> takes
  \<^verbatim>\<open>{ onNext, onClose }\<close>: their bodies get no \<^verbatim>\<open>onError\<close>. The closures
  of \<^verbatim>\<open>recoveryCodes\<close> and of the primary \<^verbatim>\<open>finish\<close> forward it.
\<close>

fun onErrorProp :: "StepComponent \<Rightarrow> (string \<Rightarrow> MultifactorDialog \<Rightarrow> MultifactorDialog) option" where
  "onErrorProp (ChooseAuthenticator authenticators) = None"
| "onErrorProp (AuthenticatorSelector authenticator isFallback) = None"
| "onErrorProp (BackupRecoveryCodes authenticatorType) = Some setError"
| "onErrorProp (TwoFactorEnabled authenticatorType) = Some setError"
| "onErrorProp (Fallback2FAEnabled primaryMethod fallbackMethod) = None"

text \<open>
  \<^verbatim>\<open>AuthenticatorSelector.onSubmitCode\<close>: the confirmation call, then
  \<^verbatim>\<open>onNext(authenticator)\<close>, all inside one \<^verbatim>\<open>try\<close>; whatever is thrown,
  by the service or by \<^verbatim>\<open>onNext\<close>, is caught, and
  \<^verbatim>\<open>onError && onError(error.message)\<close> passes its message on when the
  component was given an \<^verbatim>\<open>onError\<close>.
\<close>

definition onSubmitCode ::
  "mfa \<Rightarrow> AuthenticatorType option \<Rightarrow> (string \<Rightarrow> MultifactorDialog \<Rightarrow> MultifactorDialog) option
     \<Rightarrow> jsval \<Rightarrow> bool \<Rightarrow> string \<Rightarrow> MultifactorDialog \<Rightarrow> MultifactorDialog" where
  "onSubmitCode db primaryMethod onError authenticator isFallback code st =
     (let st1 = st\<lparr>events := events st @
                   [if isFallback then MfaEnableFallback authenticator code
                    else MfaEnable authenticator code]\<rparr>
      in case (if isFallback then mfa_enableFallback db authenticator code
               else mfa_enable db authenticator code) of
           Inl msg \<Rightarrow>
             (case onError of None \<Rightarrow> st1 | Some report \<Rightarrow> report msg st1)
         | Inr u \<Rightarrow>
             (case onNext primaryMethod [authenticator] st1 of
                Inl e \<Rightarrow>
                  (case onError of None \<Rightarrow> st1 | Some report \<Rightarrow> report (message e) st1)
              | Inr st2 \<Rightarrow> st2))"

text \<open>
  Submitting the code form of the current step. Only a step whose body is an
  \<^verbatim>\<open>AuthenticatorSelector\<close> for one of the three methods renders the form
  (for any other \<^verbatim>\<open>authenticator\<close> the selector renders \<^verbatim>\<open>null\<close>); its
  handler runs with the props the step's closure forwards.
\<close>

definition submitCode ::
  "mfa \<Rightarrow> AuthenticatorType option \<Rightarrow> string option \<Rightarrow> MultifactorDialog \<Rightarrow> MultifactorDialog" where
  "submitCode db primaryMethod code st =
     (case component (step st) of
        Some (AuthenticatorSelector (JSMethod m) isFallback) \<Rightarrow>
          VerifyAuthenticatorForm_onSubmit
            (onSubmitCode db primaryMethod
               (onErrorProp (AuthenticatorSelector (JSMethod m) isFallback))
               (JSMethod m) isFallback)
            code st
      | _ \<Rightarrow> st)"

text \<open>
  The submit handler of \<^verbatim>\<open>BackupRecoveryCodes\<close> ("Continue" on the
  recovery-codes step): \<^verbatim>\<open>onNext(props.authenticatorType)\<close>.
\<close>

definition BackupRecoveryCodes_onSubmit ::
  "AuthenticatorType option \<Rightarrow> jsval \<Rightarrow> MultifactorDialog \<Rightarrow> jserror + MultifactorDialog" where
  "BackupRecoveryCodes_onSubmit primaryMethod authenticatorType st =
     onNext primaryMethod [authenticatorType] st"

text \<open>
  \<^verbatim>\<open>SetupSMS\<close>. The result of the external validator \<^verbatim>\<open>phone(number)\<close> and the
  local state of the component, with the calls it has made to the service.
  \<^verbatim>\<open>enabled\<close> is the flag of the resend timer.
\<close>

record phone_result =
  isValid :: bool
  validPhoneNumber :: "string option"

record SetupSMS =
  isSending :: bool
  sms_error :: "string option"
  phoneNumber :: "string option"
  enabled :: bool
  sms_events :: "event list"

text \<open>The \<^verbatim>\<open>onChange\<close> handler of the phone field; \<open>number\<close> is the field's value.\<close>

definition onChange :: "(string \<Rightarrow> phone_result) \<Rightarrow> string option \<Rightarrow> SetupSMS \<Rightarrow> SetupSMS" where
  "onChange phone number s =
     (case number of
        None \<Rightarrow> s\<lparr>sms_error := Some []\<rparr>
      | Some n \<Rightarrow>
          if n = [] then s\<lparr>sms_error := Some []\<rparr>
          else if isValid (phone n)
               then s\<lparr>phoneNumber := validPhoneNumber (phone n), sms_error := Some []\<rparr>
               else s\<lparr>phoneNumber := Some [],
                      sms_error := Some ''Please enter a valid phone number with country code.''\<rparr>)"

text \<open>The \<^verbatim>\<open>onClick\<close> handler of the "Send code" action.\<close>

definition onClick :: "mfa \<Rightarrow> SetupSMS \<Rightarrow> SetupSMS" where
  "onClick db s =
     (if phoneNumber s = None \<or> phoneNumber s = Some []
      then s\<lparr>sms_error := Some ''Please provide a phone number.''\<rparr>
      else (let s1 = s\<lparr>isSending := True,
                        sms_events := sms_events s @ [MfaSetup Sms (phoneNumber s)]\<rparr>
            in case mfa_setup db Sms (phoneNumber s) of
                 Inr u \<Rightarrow> s1\<lparr>enabled := False, isSending := False\<rparr>
               | Inl msg \<Rightarrow> s1\<lparr>sms_error := Some msg, isSending := False\<rparr>))"

text \<open>
  \<^verbatim>\<open>disabled: error || isSending || !enabled\<close> of the "Send code" action, and
  the state the component starts in (the resend timer is not running).
\<close>

definition disabled :: "SetupSMS \<Rightarrow> bool" where
  "disabled s = ((sms_error s \<noteq> None \<and> sms_error s \<noteq> Some []) \<or> isSending s \<or> \<not> enabled s)"

definition initSMS :: SetupSMS where
  "initSMS = \<lparr>isSending = False, sms_error = None, phoneNumber = None, enabled = True,
              sms_events = []\<rparr>"

text \<open>
  \<^verbatim>\<open>BackupRecoveryCodes.generate\<close>, run when the step mounts and by the
  "Regenerate" action. \<open>codes\<close> is the displayed list (\<^verbatim>\<open>useState<string[]>([])\<close>);
  \<^verbatim>\<open>onError\<close> is the dialog's \<^verbatim>\<open>setError\<close>, which the closure of
  \<^verbatim>\<open>steps.recoveryCodes\<close> forwards.
\<close>

definition generate :: "mfa \<Rightarrow> string list \<Rightarrow> MultifactorDialog \<Rightarrow> string list \<times> MultifactorDialog" where
  "generate db codes st =
     (let st1 = setError [] st;
          st2 = st1\<lparr>events := events st1 @ [MfaCodes]\<rparr>
      in case mfa_codes db of
           Inr (Some new) \<Rightarrow> (new, st2)
         | Inr None \<Rightarrow> (codes, st2)
         | Inl msg \<Rightarrow> (codes, setError msg st2))"

subsection \<open>Concrete collaborators for running the model\<close>

text \<open>
  A validator with the shape of the external one: it accepts a plus sign
  followed by at least one digit and nothing else.
\<close>

definition plusDigits :: "string \<Rightarrow> phone_result" where
  "plusDigits n =
     (if n \<noteq> [] \<and> hd n = CHR ''+'' \<and> tl n \<noteq> [] \<and> list_all (\<lambda>c. c \<in> set ''0123456789'') (tl n)
      then \<lparr>isValid = True, validPhoneNumber = Some n\<rparr>
      else \<lparr>isValid = False, validPhoneNumber = None\<rparr>)"

text \<open>
  A service that accepts exactly the code \<open>good\<close>, sends every SMS and e-mail,
  and answers \<^verbatim>\<open>codes()\<close> with \<open>cs\<close>.
\<close>

definition service :: "string \<Rightarrow> string + string list option \<Rightarrow> mfa" where
  "service good cs =
    \<lparr>mfa_enable = (\<lambda>a c. if c = good then Inr () else Inl ''Invalid 2FA code.''),
     mfa_enableFallback = (\<lambda>a c. if c = good then Inr () else Inl ''Invalid 2FA code.''),
     mfa_setup = (\<lambda>a n. Inr ()),
     mfa_codes = cs\<rparr>"

definition smsEntry :: Authenticator where
  "smsEntry =
    \<lparr>auth_type = Sms,
     auth_title = ''Set up using SMS'',
     auth_subtitle = ''Notesnook will send you an SMS text with the 2FA code at login.'',
     auth_recommended = None\<rparr>"

text \<open>A step is the recovery-codes step when its body is \<^verbatim>\<open>BackupRecoveryCodes\<close>.\<close>

fun isRecoveryCodes :: "Step \<Rightarrow> bool" where
  "isRecoveryCodes s =
     (case component s of Some (BackupRecoveryCodes a) \<Rightarrow> True | _ \<Rightarrow> False)"

text \<open>
  The step made by factory \<open>creator\<close> from \<open>args\<close> becomes the current one, and
  the call is recorded; a factory that throws changes nothing.
\<close>

definition producedBy ::
  "StepCreator \<Rightarrow> jsval list \<Rightarrow> MultifactorDialog \<Rightarrow> jserror + MultifactorDialog" where
  "producedBy creator args st =
     (case call creator args of
        Inl e \<Rightarrow> Inl e
      | Inr s \<Rightarrow> Inr (st\<lparr>step := s, events := events st @ [Created creator args]\<rparr>))"

text \<open>
  What every state of a fallback session satisfies: the current step neither is
  nor leads to the recovery-codes step, and its factory was never called.
\<close>

definition fallbackInv :: "MultifactorDialog \<Rightarrow> bool" where
  "fallbackInv st =
     (next_key (step st) \<noteq> Some RecoveryCodes \<and> \<not> isRecoveryCodes (step st)
      \<and> list_all (\<lambda>e. case e of Created (StepsCreator RecoveryCodes) args \<Rightarrow> False | _ \<Rightarrow> True) (events st))"

section \<open>Properties\<close>

subsection \<open>Resolution of the successor step\<close>

lemma step_setError: "step (setError m st) = step st"
  by (simp add: setError_def)

lemma events_setError: "events (setError m st) = events st"
  by (simp add: setError_def)

lemma fallbackSteps_not_steps: "fallbackSteps k \<noteq> Some (StepsCreator k')"
  by (cases k) simp_all

text \<open>
  Claim C1. On an advance from a step with successor key \<open>k\<close>: in a fallback
  session (primary method \<open>p\<close> given) the factory is the fallback table's entry
  for \<open>k\<close> exactly when \<open>k\<close> is not \<open>RecoveryCodes\<close>, and the primary table's
  entry exactly when it is; the factory is called with the forwarded arguments
  followed by \<open>p\<close>, and its step becomes the current one. In a primary session
  the primary table's entry is called with the forwarded arguments alone.
\<close>

theorem onNext_resolves_successor:
  assumes "next_key (step st) = Some k"
  shows "(nextStepCreator (Some p) k = fallbackSteps k) = (k \<noteq> RecoveryCodes)
       \<and> (nextStepCreator (Some p) k = steps k) = (k = RecoveryCodes)
       \<and> (\<exists>creator. nextStepCreator (Some p) k = Some creator
             \<and> onNext (Some p) args st = producedBy creator (args @ [JSMethod p]) st)
       \<and> nextStepCreator None k = steps k
       \<and> onNext None args st = producedBy (StepsCreator k) args st"
proof -
  have a: "(nextStepCreator (Some p) k = fallbackSteps k) = (k \<noteq> RecoveryCodes)"
    by (cases k) (simp_all add: nextStepCreator_def steps_def)
  have b: "(nextStepCreator (Some p) k = steps k) = (k = RecoveryCodes)"
    by (cases k) (simp_all add: nextStepCreator_def steps_def)
  obtain creator where c: "nextStepCreator (Some p) k = Some creator"
    by (cases k) (simp_all add: nextStepCreator_def steps_def)
  have d: "onNext (Some p) args st = producedBy creator (args @ [JSMethod p]) st"
    using assms c by (simp add: onNext_def producedBy_def setStep_def split: sum.splits)
  have e: "nextStepCreator None k = steps k"
    by (simp add: nextStepCreator_def)
  have f: "onNext None args st = producedBy (StepsCreator k) args st"
    using assms e by (simp add: onNext_def producedBy_def setStep_def steps_def split: sum.splits)
  from a b c d e f show ?thesis by blast
qed

theorem onNext_resolves_successor_witness:
  "next_key (step (init (Some App))) = Some Setup
   \<and> nextStepCreator (Some App) Setup = Some (FallbackStepsCreator FSetup)
   \<and> onNext (Some App) [JSAuthenticator smsEntry] (init (Some App)) =
       producedBy (FallbackStepsCreator FSetup) [JSAuthenticator smsEntry, JSMethod App]
         (init (Some App))
   \<and> onNext None [JSAuthenticator smsEntry] (init (Some App)) =
       producedBy (StepsCreator Setup) [JSAuthenticator smsEntry] (init (Some App))"
proof -
  have h: "next_key (step (init (Some App))) = Some Setup"
    by (simp add: init_def fallbackSteps_choose_def)
  from onNext_resolves_successor [OF h, of App "[JSAuthenticator smsEntry]"] h
  show ?thesis
    by (auto simp: nextStepCreator_def)
qed

subsection \<open>Fallback sessions never reach the recovery codes\<close>

lemma fallbackSteps_choose_next: "next_key (fallbackSteps_choose v) = Some Setup"
  by (simp add: fallbackSteps_choose_def)

lemma fallbackSteps_setup_next: "fallbackSteps_setup a = Inr s \<Longrightarrow> next_key s = Some Finish"
  by (cases a) auto

lemma fallbackSteps_setup_component:
  "fallbackSteps_setup a = Inr s \<Longrightarrow> \<not> isRecoveryCodes s"
  by (cases a) auto

lemma fallback_call_inv:
  assumes "fallbackSteps k = Some c" and "call c args = Inr s"
  shows "next_key s \<noteq> Some RecoveryCodes \<and> \<not> isRecoveryCodes s"
proof (cases k)
  case Choose
  with assms show ?thesis by (auto simp: fallbackSteps_choose_def)
next
  case Setup
  with assms have s: "fallbackSteps_setup (arg args 0) = Inr s" by auto
  from fallbackSteps_setup_next [OF s] fallbackSteps_setup_component [OF s]
  show ?thesis by simp
next
  case RecoveryCodes
  with assms show ?thesis by simp
next
  case Finish
  with assms show ?thesis by (auto simp: fallbackSteps_finish_def)
qed

lemma fallback_creator_not_steps:
  "fallbackSteps k = Some c \<Longrightarrow> c \<noteq> StepsCreator k'"
  by (cases k) auto

lemma fallbackInv_init: "fallbackInv (init (Some p))"
  by (simp add: fallbackInv_def init_def fallbackSteps_choose_def)

lemma fallbackInv_onNext:
  assumes "fallbackInv st" and "onNext (Some p) args st = Inr st'"
  shows "fallbackInv st'"
proof (cases "next_key (step st)")
  case None
  with assms show ?thesis
    by (auto simp: onNext_def onClose_def fallbackInv_def)
next
  case (Some k)
  with assms have k: "k \<noteq> RecoveryCodes" by (simp add: fallbackInv_def)
  with Some assms(2) obtain c s where c: "fallbackSteps k = Some c"
    and s: "call c (args @ [JSMethod p]) = Inr s"
    and st': "st' = st\<lparr>step := s, events := events st @ [Created c (args @ [JSMethod p])]\<rparr>"
    by (auto simp: onNext_def nextStepCreator_def setStep_def Let_def
          split: option.splits sum.splits)
  from fallback_call_inv [OF c s] fallback_creator_not_steps [OF c] assms(1) st'
  show ?thesis
    by (cases c) (auto simp: fallbackInv_def)
qed

lemma fallbackInv_dispatch: "fallbackInv st \<Longrightarrow> fallbackInv (dispatch (Some p) st a)"
proof (cases a)
  case (Next args)
  assume "fallbackInv st"
  with Next show ?thesis
    by (cases "onNext (Some p) args st") (auto dest: fallbackInv_onNext)
next
  case (ReportError m)
  assume "fallbackInv st"
  with ReportError show ?thesis by (simp add: fallbackInv_def setError_def)
next
  case Cancel
  assume "fallbackInv st"
  with Cancel show ?thesis
    by (simp add: fallbackInv_def cancel_def negativeButton_def onClose_def)
qed

lemma fallbackInv_foldl: "fallbackInv st \<Longrightarrow> fallbackInv (foldl (dispatch (Some p)) st acts)"
  by (induction acts arbitrary: st) (simp_all add: fallbackInv_dispatch)

lemma fallbackInv_run: "fallbackInv (run (Some p) acts)"
  unfolding run_def by (rule fallbackInv_foldl [OF fallbackInv_init])

text \<open>
  Claim C2. The fallback \<open>choose\<close> step continues to \<open>Setup\<close>, every fallback
  \<open>setup\<close> step continues to \<open>Finish\<close>, and whatever events a session started with
  a primary method receives, its current step is never the recovery-codes step,
  never leads to it, and the recovery-codes factory is never called.
\<close>

theorem fallback_never_recoveryCodes:
  "next_key (fallbackSteps_choose (JSMethod p)) = Some Setup
   \<and> (fallbackSteps_setup a = Inr s \<longrightarrow> next_key s = Some Finish)
   \<and> \<not> isRecoveryCodes (step (run (Some p) acts))
   \<and> next_key (step (run (Some p) acts)) \<noteq> Some RecoveryCodes
   \<and> Created (StepsCreator RecoveryCodes) args \<notin> set (events (run (Some p) acts))"
proof -
  have inv: "fallbackInv (run (Some p) acts)" by (rule fallbackInv_run)
  then have "list_all (\<lambda>e. case e of Created (StepsCreator RecoveryCodes) args \<Rightarrow> False | _ \<Rightarrow> True)
               (events (run (Some p) acts))"
    by (simp add: fallbackInv_def)
  then have "Created (StepsCreator RecoveryCodes) args \<notin> set (events (run (Some p) acts))"
    by (auto simp: list_all_iff)
  with inv show ?thesis
    by (auto simp: fallbackInv_def fallbackSteps_choose_next dest: fallbackSteps_setup_next)
qed

theorem fallback_never_recoveryCodes_witness:
  "fallbackSteps_setup (JSAuthenticator smsEntry) =
     Inr \<lparr>title = Some (auth_title smsEntry), description = Some (auth_subtitle smsEntry),
          component = Some (AuthenticatorSelector (JSMethod Sms) True),
          next_key = Some Finish, cancellable = Some True\<rparr>
   \<and> next_key (fallbackSteps_choose (JSMethod App)) = Some Setup
   \<and> \<not> isRecoveryCodes (step (run (Some App) [Next [JSAuthenticator smsEntry], Next [JSMethod Sms]]))
   \<and> component (step (run (Some App) [Next [JSAuthenticator smsEntry], Next [JSMethod Sms]]))
       = Some (Fallback2FAEnabled (JSMethod App) (JSMethod Sms))"
  using fallback_never_recoveryCodes [of App "JSAuthenticator smsEntry"
      "\<lparr>title = Some (auth_title smsEntry), description = Some (auth_subtitle smsEntry),
          component = Some (AuthenticatorSelector (JSMethod Sms) True),
          next_key = Some Finish, cancellable = Some True\<rparr>"
      "[Next [JSAuthenticator smsEntry], Next [JSMethod Sms]]" "[]"]
  by (simp add: smsEntry_def run_def init_def onNext_def nextStepCreator_def arg_def setStep_def
        fallbackSteps_choose_def fallbackSteps_finish_def)

subsection \<open>The candidates of the fallback choose step\<close>

lemma candidates_removeAll: "candidates catalog (JSMethod m) = removeAll m catalog"
  by (induction catalog) (auto simp: candidates_def)

lemma filtered_types:
  "map (map_option auth_type) (filteredAuthenticators xs) = map Some xs"
proof -
  have "map_option auth_type (find (\<lambda>auth. auth_type auth = a) Authenticators) = Some a" for a
    by (cases a) (simp_all add: Authenticators_def)
  then show ?thesis
    by (simp add: filteredAuthenticators_def)
qed

lemma selected_type:
  assumes "selectedAuthenticator xs i = JSAuthenticator a"
  shows "auth_type a \<in> set xs"
proof -
  from assms have i: "i < length xs" and f: "filteredAuthenticators xs ! i = Some a"
    by (auto simp: selectedAuthenticator_def filteredAuthenticators_def
          split: if_splits option.splits)
  have "map (map_option auth_type) (filteredAuthenticators xs) ! i = map Some xs ! i"
    by (simp add: filtered_types)
  with i f have "auth_type a = xs ! i"
    by (simp add: filteredAuthenticators_def)
  with i show ?thesis by simp
qed

text \<open>
  Claim C3. A session started with primary method \<open>m\<close> opens on a choose step
  whose candidate list is the catalog with \<open>m\<close> removed, and the entries shown
  for it are the catalog entries of exactly those methods. For \<open>App\<close> and the
  catalog \<open>[App, Sms, Email]\<close> the candidates are \<open>[Sms, Email]\<close>. For any
  catalog the filter removes \<open>m\<close>, so \<open>m\<close> is not among the candidates and no
  selection can pass an entry of method \<open>m\<close> on.
\<close>

theorem fallback_choose_offers_catalog_without_primary:
  "component (step (init (Some m))) =
     Some (ChooseAuthenticator (removeAll m defaultAuthenticators))
   \<and> component (fallbackSteps_choose (JSMethod m)) =
     Some (ChooseAuthenticator (candidates defaultAuthenticators (JSMethod m)))
   \<and> map (map_option auth_type)
         (filteredAuthenticators (candidates defaultAuthenticators (JSMethod m)))
       = map Some (removeAll m defaultAuthenticators)
   \<and> component (fallbackSteps_choose (JSMethod App)) = Some (ChooseAuthenticator [Sms, Email])
   \<and> set (candidates defaultAuthenticators (JSMethod App)) = {Sms, Email}
   \<and> candidates catalog (JSMethod m) = removeAll m catalog
   \<and> m \<notin> set (candidates catalog (JSMethod m))
   \<and> selectedAuthenticator (candidates catalog (JSMethod m)) i \<noteq>
       JSAuthenticator (a\<lparr>auth_type := m\<rparr>)"
proof -
  have sel: "selectedAuthenticator (candidates catalog (JSMethod m)) i \<noteq>
       JSAuthenticator (a\<lparr>auth_type := m\<rparr>)"
  proof
    assume "selectedAuthenticator (candidates catalog (JSMethod m)) i =
       JSAuthenticator (a\<lparr>auth_type := m\<rparr>)"
    from selected_type [OF this] show False
      by (simp add: candidates_removeAll)
  qed
  have app: "candidates defaultAuthenticators (JSMethod App) = [Sms, Email]"
    by (simp add: candidates_def defaultAuthenticators_def)
  show ?thesis
    using sel app
    by (simp add: init_def fallbackSteps_choose_def candidates_removeAll filtered_types)
qed

subsection \<open>Reporting an error\<close>

lemma run_primary_setup:
  "run None [Next [JSAuthenticator smsEntry]] =
     \<lparr>step = \<lparr>title = Some ''Set up using SMS'',
               description = Some ''Notesnook will send you an SMS text with the 2FA code at login.'',
               component = Some (AuthenticatorSelector (JSMethod Sms) False),
               next_key = Some RecoveryCodes, cancellable = None\<rparr>,
      error = None,
      events = [Created (StepsCreator Setup) [JSAuthenticator smsEntry]]\<rparr>"
  by (simp add: run_def init_def onNext_def steps_choose_def nextStepCreator_def steps_def arg_def
        setStep_def smsEntry_def)

lemma run_fallback_setup:
  "run (Some App) [Next [JSAuthenticator smsEntry]] =
     \<lparr>step = \<lparr>title = Some ''Set up using SMS'',
               description = Some ''Notesnook will send you an SMS text with the 2FA code at login.'',
               component = Some (AuthenticatorSelector (JSMethod Sms) True),
               next_key = Some Finish, cancellable = Some True\<rparr>,
      error = None,
      events = [Created (FallbackStepsCreator FSetup) [JSAuthenticator smsEntry, JSMethod App]]\<rparr>"
  by (simp add: run_def init_def onNext_def fallbackSteps_choose_def nextStepCreator_def arg_def
        setStep_def smsEntry_def)

text \<open>
  A report as such writes the error cell and nothing else, also twice in a row.
\<close>

lemma setError_only_error:
  "setError m st = st\<lparr>error := Some m\<rparr>
   \<and> dispatch pm st (ReportError m) = st\<lparr>error := Some m\<rparr>
   \<and> step (setError m2 (setError m1 st)) = step st
   \<and> events (setError m2 (setError m1 st)) = events st"
  by (simp add: setError_def)

text \<open>
  A rejected code reaches the dialog only through \<^verbatim>\<open>onError\<close>. Given the
  dialog's \<^verbatim>\<open>setError\<close> the handler reports the message; given none, as on
  the setup steps, the state keeps its error cell.
\<close>

lemma onSubmitCode_rejected_reported:
  "mfa_enable db a code = Inl msg \<Longrightarrow>
   onSubmitCode db pm (Some setError) a False code st =
     st\<lparr>error := Some msg, events := events st @ [MfaEnable a code]\<rparr>"
  by (simp add: onSubmitCode_def setError_def)

lemma onSubmitCode_rejected_unreported:
  "mfa_enable db a code = Inl msg \<Longrightarrow>
   onSubmitCode db pm None a False code st = st\<lparr>events := events st @ [MfaEnable a code]\<rparr>"
  by (simp add: onSubmitCode_def)

lemma onSubmitCode_fallback_rejected_unreported:
  "mfa_enableFallback db a code = Inl msg \<Longrightarrow>
   onSubmitCode db pm None a True code st =
     st\<lparr>events := events st @ [MfaEnableFallback a code]\<rparr>"
  by (simp add: onSubmitCode_def)

lemma error_submitCode_rejected:
  assumes "component (step st) = Some (AuthenticatorSelector (JSMethod m) False)"
    and "mfa_enable db (JSMethod m) code = Inl msg"
  shows "error (submitCode db pm (Some code) st) = error st
       \<and> step (submitCode db pm (Some code) st) = step st"
  using assms
  by (simp add: submitCode_def VerifyAuthenticatorForm_onSubmit_def
        onSubmitCode_rejected_unreported)

text \<open>
  Claim C4. The code does not report a verification failure on the setup
  step. A primary session on the SMS setup step submits \<open>000000\<close>, which the
  service rejects: the confirmation call is made, the step is the one it was
  and no transition happens, but the error cell is still empty and the dialog
  shows no message. The same holds in a fallback session.
\<close>

theorem rejected_code_is_not_reported:
  "mfa_enable (service ''482193'' (Inr None)) (JSMethod Sms) ''000000'' = Inl ''Invalid 2FA code.''
   \<and> step (submitCode (service ''482193'' (Inr None)) None (Some ''000000'')
        (run None [Next [JSAuthenticator smsEntry]]))
       = step (run None [Next [JSAuthenticator smsEntry]])
   \<and> events (submitCode (service ''482193'' (Inr None)) None (Some ''000000'')
        (run None [Next [JSAuthenticator smsEntry]]))
       = [Created (StepsCreator Setup) [JSAuthenticator smsEntry],
          MfaEnable (JSMethod Sms) ''000000'']
   \<and> error (submitCode (service ''482193'' (Inr None)) None (Some ''000000'')
        (run None [Next [JSAuthenticator smsEntry]])) = None
   \<and> shownError (submitCode (service ''482193'' (Inr None)) None (Some ''000000'')
        (run None [Next [JSAuthenticator smsEntry]])) = None
   \<and> step (submitCode (service ''482193'' (Inr None)) (Some App) (Some ''000000'')
        (run (Some App) [Next [JSAuthenticator smsEntry]]))
       = step (run (Some App) [Next [JSAuthenticator smsEntry]])
   \<and> shownError (submitCode (service ''482193'' (Inr None)) (Some App) (Some ''000000'')
        (run (Some App) [Next [JSAuthenticator smsEntry]])) = None"
  by (simp add: run_primary_setup run_fallback_setup submitCode_def
        VerifyAuthenticatorForm_onSubmit_def onSubmitCode_def service_def shownError_def)

subsection \<open>The error message across an advance\<close>

lemma error_onNext: "onNext pm args st = Inr st' \<Longrightarrow> error st' = error st"
  by (auto simp: onNext_def onClose_def setStep_def Let_def split: option.splits sum.splits)

lemma error_cancel: "error (cancel st) = error st"
  by (simp add: cancel_def negativeButton_def onClose_def)

text \<open>
  A primary session that chose SMS and had its code accepted is on the
  recovery-codes step.
\<close>

lemma primary_recoveryCodes:
  "submitCode (service ''482193'' cs) None (Some ''482193'')
     (run None [Next [JSAuthenticator smsEntry]]) =
     \<lparr>step = steps_recoveryCodes (JSMethod Sms),
      error = None,
      events = [Created (StepsCreator Setup) [JSAuthenticator smsEntry],
                MfaEnable (JSMethod Sms) ''482193'',
                Created (StepsCreator RecoveryCodes) [JSMethod Sms]]\<rparr>"
  by (simp add: run_primary_setup submitCode_def VerifyAuthenticatorForm_onSubmit_def
        onSubmitCode_def service_def onNext_def nextStepCreator_def steps_def arg_def setStep_def)

lemma mfa_codes_service: "mfa_codes (service good cs) = cs"
  by (simp add: service_def)

lemma failed_fetch_on_recoveryCodes:
  "snd (generate (service ''482193'' (Inl ''Failed to fetch'')) []
     (submitCode (service ''482193'' (Inl ''Failed to fetch'')) None (Some ''482193'')
       (run None [Next [JSAuthenticator smsEntry]]))) =
     \<lparr>step = steps_recoveryCodes (JSMethod Sms),
      error = Some ''Failed to fetch'',
      events = [Created (StepsCreator Setup) [JSAuthenticator smsEntry],
                MfaEnable (JSMethod Sms) ''482193'',
                Created (StepsCreator RecoveryCodes) [JSMethod Sms],
                MfaCodes]\<rparr>"
  by (simp add: primary_recoveryCodes generate_def setError_def mfa_codes_service)

text \<open>
  Claim C5, as stated, fails. A primary session reaches the recovery-codes
  step; the fetch of the codes fails and the step reports the message; the
  user continues. The session advances to the finish step, and the dialog
  still shows the message of the failed fetch.
\<close>

theorem advance_clears_error_counterexample:
  "shownError
     (snd (generate (service ''482193'' (Inl ''Failed to fetch'')) []
       (submitCode (service ''482193'' (Inl ''Failed to fetch'')) None (Some ''482193'')
         (run None [Next [JSAuthenticator smsEntry]]))))
     = Some ''Failed to fetch''
   \<and> BackupRecoveryCodes_onSubmit None (JSMethod Sms)
     (snd (generate (service ''482193'' (Inl ''Failed to fetch'')) []
       (submitCode (service ''482193'' (Inl ''Failed to fetch'')) None (Some ''482193'')
         (run None [Next [JSAuthenticator smsEntry]]))))
     = Inr \<lparr>step = steps_finish (JSMethod Sms),
            error = Some ''Failed to fetch'',
            events = [Created (StepsCreator Setup) [JSAuthenticator smsEntry],
                      MfaEnable (JSMethod Sms) ''482193'',
                      Created (StepsCreator RecoveryCodes) [JSMethod Sms],
                      MfaCodes,
                      Created (StepsCreator Finish) [JSMethod Sms]]\<rparr>
   \<and> shownError \<lparr>step = steps_finish (JSMethod Sms),
            error = Some ''Failed to fetch'',
            events = [Created (StepsCreator Setup) [JSAuthenticator smsEntry],
                      MfaEnable (JSMethod Sms) ''482193'',
                      Created (StepsCreator RecoveryCodes) [JSMethod Sms],
                      MfaCodes,
                      Created (StepsCreator Finish) [JSMethod Sms]]\<rparr>
     = Some ''Failed to fetch''
   \<and> steps_finish (JSMethod Sms) \<noteq> steps_recoveryCodes (JSMethod Sms)"
  by (simp add: failed_fetch_on_recoveryCodes BackupRecoveryCodes_onSubmit_def onNext_def
        nextStepCreator_def steps_def arg_def setStep_def shownError_def Let_def
        steps_recoveryCodes_def steps_finish_def)

text \<open>
  Claim C5, amended. An advance leaves the error message as it was, and so
  does a cancel request; the message changes only when a step body reports
  again. The recovery-codes step does so each time it fetches the codes: it
  reports the empty message first, and the message of the failure if the fetch
  fails.
\<close>

theorem advance_keeps_error:
  assumes "onNext pm args st = Inr st'"
  shows "error st' = error st
       \<and> shownError st' = shownError st
       \<and> error (dispatch pm st (Next args)) = error st
       \<and> error (dispatch pm st Cancel) = error st
       \<and> error (dispatch pm st (ReportError m)) = Some m
       \<and> error (snd (generate db codes st)) =
           (case mfa_codes db of Inl msg \<Rightarrow> Some msg | Inr r \<Rightarrow> Some [])"
proof -
  from assms have e: "error st' = error st" by (rule error_onNext)
  have g: "error (snd (generate db codes st)) =
           (case mfa_codes db of Inl msg \<Rightarrow> Some msg | Inr r \<Rightarrow> Some [])"
    by (simp add: generate_def setError_def Let_def split: sum.splits option.splits)
  from e g assms show ?thesis
    by (simp add: shownError_def error_cancel setError_def)
qed

theorem advance_keeps_error_witness:
  "onNext None [JSMethod Sms]
     \<lparr>step = steps_recoveryCodes (JSMethod Sms),
      error = Some ''Failed to fetch'',
      events = [Created (StepsCreator Setup) [JSAuthenticator smsEntry],
                MfaEnable (JSMethod Sms) ''482193'',
                Created (StepsCreator RecoveryCodes) [JSMethod Sms],
                MfaCodes]\<rparr>
   = Inr \<lparr>step = steps_finish (JSMethod Sms),
          error = Some ''Failed to fetch'',
          events = [Created (StepsCreator Setup) [JSAuthenticator smsEntry],
                    MfaEnable (JSMethod Sms) ''482193'',
                    Created (StepsCreator RecoveryCodes) [JSMethod Sms],
                    MfaCodes,
                    Created (StepsCreator Finish) [JSMethod Sms]]\<rparr>
   \<and> error \<lparr>step = steps_finish (JSMethod Sms),
          error = Some ''Failed to fetch'',
          events = [Created (StepsCreator Setup) [JSAuthenticator smsEntry],
                    MfaEnable (JSMethod Sms) ''482193'',
                    Created (StepsCreator RecoveryCodes) [JSMethod Sms],
                    MfaCodes,
                    Created (StepsCreator Finish) [JSMethod Sms]]\<rparr>
     = error \<lparr>step = steps_recoveryCodes (JSMethod Sms),
          error = Some ''Failed to fetch'',
          events = [Created (StepsCreator Setup) [JSAuthenticator smsEntry],
                    MfaEnable (JSMethod Sms) ''482193'',
                    Created (StepsCreator RecoveryCodes) [JSMethod Sms],
                    MfaCodes]\<rparr>"
proof -
  have h: "onNext None [JSMethod Sms]
     \<lparr>step = steps_recoveryCodes (JSMethod Sms),
      error = Some ''Failed to fetch'',
      events = [Created (StepsCreator Setup) [JSAuthenticator smsEntry],
                MfaEnable (JSMethod Sms) ''482193'',
                Created (StepsCreator RecoveryCodes) [JSMethod Sms],
                MfaCodes]\<rparr>
   = Inr \<lparr>step = steps_finish (JSMethod Sms),
          error = Some ''Failed to fetch'',
          events = [Created (StepsCreator Setup) [JSAuthenticator smsEntry],
                    MfaEnable (JSMethod Sms) ''482193'',
                    Created (StepsCreator RecoveryCodes) [JSMethod Sms],
                    MfaCodes,
                    Created (StepsCreator Finish) [JSMethod Sms]]\<rparr>"
    by (simp add: onNext_def nextStepCreator_def steps_def arg_def setStep_def Let_def
          steps_recoveryCodes_def)
  from advance_keeps_error [OF h] h show ?thesis by simp
qed

subsection \<open>Advancing from a terminal step\<close>

text \<open>
  Claim C6. When the current step has no successor key, \<open>onNext\<close> is exactly a
  call of \<open>onClose\<close>: the step and the error stay, the only thing recorded is the
  close request, so no factory is called. Both finish steps have no successor
  key.
\<close>

theorem next_without_successor_closes:
  assumes "next_key (step st) = None"
  shows "onNext pm args st = Inr (onClose st)
       \<and> dispatch pm st (Next args) = onClose st
       \<and> step (onClose st) = step st
       \<and> error (onClose st) = error st
       \<and> events (onClose st) = events st @ [OnClose]
       \<and> next_key (steps_finish a) = None
       \<and> next_key (fallbackSteps_finish f p) = None"
  using assms
  by (simp add: onNext_def onClose_def steps_finish_def fallbackSteps_finish_def)

theorem next_without_successor_closes_witness:
  "next_key (step \<lparr>step = steps_finish (JSMethod Email), error = None, events = []\<rparr>) = None
   \<and> onNext None [] \<lparr>step = steps_finish (JSMethod Email), error = None, events = []\<rparr> =
       Inr \<lparr>step = steps_finish (JSMethod Email), error = None, events = [OnClose]\<rparr>
   \<and> next_key (step \<lparr>step = fallbackSteps_finish (JSMethod Sms) (JSMethod App),
                     error = None, events = []\<rparr>) = None
   \<and> onNext (Some App) [] \<lparr>step = fallbackSteps_finish (JSMethod Sms) (JSMethod App),
                            error = None, events = []\<rparr> =
       Inr \<lparr>step = fallbackSteps_finish (JSMethod Sms) (JSMethod App),
            error = None, events = [OnClose]\<rparr>"
proof -
  have h1: "next_key (step \<lparr>step = steps_finish (JSMethod Email), error = None, events = []\<rparr>)
              = None"
    by (simp add: steps_finish_def)
  have h2: "next_key (step \<lparr>step = fallbackSteps_finish (JSMethod Sms) (JSMethod App),
                     error = None, events = []\<rparr>) = None"
    by (simp add: fallbackSteps_finish_def)
  from next_without_successor_closes [OF h1, where pm = None and args = "[]"]
       next_without_successor_closes [OF h2, where pm = "Some App" and args = "[]"] h1 h2
  show ?thesis by (simp add: onClose_def)
qed

subsection \<open>Cancelling\<close>

lemma cancel_cancellable: "cancellable (step st) = Some True \<Longrightarrow> cancel st = onClose st"
  by (simp add: cancel_def negativeButton_def)

text \<open>
  Claim C8. On a step whose \<open>cancellable\<close> flag is not set, a cancel request
  leaves the whole state as it was; in particular no close request is recorded.
  Neither finish step has the flag.
\<close>

theorem cancel_noop_when_not_cancellable:
  assumes "cancellable (step st) \<noteq> Some True"
  shows "cancel st = st
       \<and> dispatch pm st Cancel = st
       \<and> events (cancel st) = events st
       \<and> cancellable (steps_finish a) \<noteq> Some True
       \<and> cancellable (fallbackSteps_finish f p) \<noteq> Some True"
  using assms
  by (simp add: cancel_def negativeButton_def steps_finish_def fallbackSteps_finish_def)

theorem cancel_noop_when_not_cancellable_witness:
  "cancellable (step \<lparr>step = fallbackSteps_finish (JSMethod Sms) (JSMethod App),
                      error = None, events = []\<rparr>) \<noteq> Some True
   \<and> cancel \<lparr>step = fallbackSteps_finish (JSMethod Sms) (JSMethod App), error = None, events = []\<rparr>
     = \<lparr>step = fallbackSteps_finish (JSMethod Sms) (JSMethod App), error = None, events = []\<rparr>
   \<and> cancellable (step \<lparr>step = steps_finish (JSMethod Email), error = None, events = []\<rparr>)
     \<noteq> Some True
   \<and> cancel \<lparr>step = steps_finish (JSMethod Email), error = None, events = []\<rparr>
     = \<lparr>step = steps_finish (JSMethod Email), error = None, events = []\<rparr>"
proof -
  have h1: "cancellable (step \<lparr>step = fallbackSteps_finish (JSMethod Sms) (JSMethod App),
                      error = None, events = []\<rparr>) \<noteq> Some True"
    by (simp add: fallbackSteps_finish_def)
  have h2: "cancellable (step \<lparr>step = steps_finish (JSMethod Email), error = None, events = []\<rparr>)
     \<noteq> Some True"
    by (simp add: steps_finish_def)
  from cancel_noop_when_not_cancellable [OF h1] cancel_noop_when_not_cancellable [OF h2] h1 h2
  show ?thesis by simp
qed

subsection \<open>Local validation\<close>

lemma onClick_no_number:
  assumes "phoneNumber s = Some []"
  shows "onClick db s = s\<lparr>sms_error := Some ''Please provide a phone number.''\<rparr>"
  using assms by (simp add: onClick_def)

lemma onClick_funpow_no_number:
  assumes "phoneNumber s = Some []"
  shows "phoneNumber ((onClick db ^^ n) s) = Some []
       \<and> sms_events ((onClick db ^^ n) s) = sms_events s"
proof (induction n)
  case 0
  from assms show ?case by simp
next
  case (Suc n)
  then show ?case by (simp add: onClick_no_number)
qed

lemma onChange_rejected:
  assumes "number \<noteq> []" and "\<not> isValid (phone number)"
  shows "onChange phone (Some number) s =
     s\<lparr>phoneNumber := Some [],
       sms_error := Some ''Please enter a valid phone number with country code.''\<rparr>"
  using assms by (simp add: onChange_def)

text \<open>The checks do let well-formed input through to the service.\<close>

lemma submit_six_calls_service:
  "length code = 6 \<Longrightarrow>
   VerifyAuthenticatorForm_onSubmit (onSubmitCode db pm oe a isFallback) (Some code) st =
     onSubmitCode db pm oe a isFallback code st"
  by (auto simp: VerifyAuthenticatorForm_onSubmit_def)

lemma onSubmitCode_calls_service:
  "\<exists>rest. events (onSubmitCode db pm None a False code st) = events st @ MfaEnable a code # rest"
  by (auto simp: onSubmitCode_def onNext_def onClose_def setStep_def Let_def
        split: sum.splits option.splits)

lemma onClick_valid_calls_service:
  "sms_events (onClick (service good cs) (onChange plusDigits (Some ''+15417543010'') initSMS))
   = [MfaSetup Sms (Some ''+15417543010'')]"
  by (simp add: onClick_def onChange_def plusDigits_def service_def initSMS_def)

text \<open>
  What does hold of the local checks. A submitted code whose length is not
  6, or a form without a code, changes nothing: no confirmation call is made.
  A non-empty phone input that the validator rejects sets the validation
  error, disables the "Send code" action, and however often the action's
  handler runs afterwards, no call of the service is made.
\<close>

lemma rejected_input_skips_service:
  assumes "length code \<noteq> 6" and "number \<noteq> []" and "\<not> isValid (phone number)"
  shows "VerifyAuthenticatorForm_onSubmit (onSubmitCode db pm oe a isFallback) (Some code) st = st
       \<and> VerifyAuthenticatorForm_onSubmit (onSubmitCode db pm oe a isFallback) None st = st
       \<and> sms_error (onChange phone (Some number) s) =
           Some ''Please enter a valid phone number with country code.''
       \<and> disabled (onChange phone (Some number) s)
       \<and> sms_events ((onClick db ^^ n) (onChange phone (Some number) s)) = sms_events s"
proof -
  let ?s = "onChange phone (Some number) s"
  have s: "?s = s\<lparr>phoneNumber := Some [],
       sms_error := Some ''Please enter a valid phone number with country code.''\<rparr>"
    using assms(2,3) by (rule onChange_rejected)
  then have p: "phoneNumber ?s = Some []" by simp
  have d: "disabled ?s" by (simp add: s disabled_def)
  from onClick_funpow_no_number [OF p, where db = db and n = n]
  have e: "sms_events ((onClick db ^^ n) ?s) = sms_events s" by (simp add: s)
  from assms(1) d e show ?thesis
    by (simp add: VerifyAuthenticatorForm_onSubmit_def s)
qed

lemma notanumber_skips_service:
  "\<not> isValid (plusDigits ''notanumber'')
   \<and> sms_error (onChange plusDigits (Some ''notanumber'')
          (onChange plusDigits (Some ''+15417543010'') initSMS))
       = Some ''Please enter a valid phone number with country code.''
   \<and> sms_events (onClick (service ''482193'' (Inr None))
        (onChange plusDigits (Some ''notanumber'')
          (onChange plusDigits (Some ''+15417543010'') initSMS))) = []"
  by (simp add: plusDigits_def onChange_def onClick_def initSMS_def)

text \<open>
  Claim C7. The code invokes the service after an input the validator
  rejects, when that input is the empty one. The handler of the phone field
  returns on an empty value before it asks the validator, and unlike the
  branch for a rejected value it leaves the accepted number in place. The user
  enters a valid number and empties the field again: no validation error is
  shown, the action is enabled, and a click calls the service with the earlier
  number. The validator used here rejects the empty string.
\<close>

theorem emptied_field_sends_to_earlier_number:
  "\<not> isValid (plusDigits [])
   \<and> phoneNumber (onChange plusDigits (Some [])
        (onChange plusDigits (Some ''+15417543010'') initSMS)) = Some ''+15417543010''
   \<and> sms_error (onChange plusDigits (Some [])
        (onChange plusDigits (Some ''+15417543010'') initSMS)) = Some []
   \<and> \<not> disabled (onChange plusDigits (Some [])
        (onChange plusDigits (Some ''+15417543010'') initSMS))
   \<and> sms_events (onClick (service ''482193'' (Inr None))
        (onChange plusDigits (Some [])
          (onChange plusDigits (Some ''+15417543010'') initSMS)))
       = [MfaSetup Sms (Some ''+15417543010'')]"
  by (simp add: plusDigits_def onChange_def onClick_def disabled_def initSMS_def service_def)

subsection \<open>Recovery codes\<close>

text \<open>
  Claim C9. When the service answers the regeneration with a list \<open>new\<close> that
  shares no code with the displayed list (the service's contract: the earlier
  codes are invalidated), the displayed list becomes \<open>new\<close> and has no code in
  common with the earlier one; the session stays on its step.
\<close>

theorem regenerate_replaces_codes:
  assumes "mfa_codes db = Inr (Some new)" and "set new \<inter> set prior = {}"
  shows "fst (generate db prior st) = new
       \<and> set (fst (generate db prior st)) \<inter> set prior = {}
       \<and> step (snd (generate db prior st)) = step st"
  using assms by (simp add: generate_def setError_def Let_def)

theorem regenerate_replaces_codes_witness:
  "mfa_codes (service ''482193'' (Inr (Some [''c3d4'', ''e5f6''])))
     = Inr (Some [''c3d4'', ''e5f6''])
   \<and> set [''c3d4'', ''e5f6''] \<inter> set [''a1b2'', ''0000''] = {}
   \<and> fst (generate (service ''482193'' (Inr (Some [''c3d4'', ''e5f6''])))
        [''a1b2'', ''0000''] (run None [Next [JSAuthenticator smsEntry], Next [JSMethod Sms]]))
       = [''c3d4'', ''e5f6'']"
proof -
  have h1: "mfa_codes (service ''482193'' (Inr (Some [''c3d4'', ''e5f6''])))
              = Inr (Some [''c3d4'', ''e5f6''])"
    by (simp add: service_def)
  have h2: "set [''c3d4'', ''e5f6''] \<inter> set [''a1b2'', ''0000''] = {}" by simp
  from regenerate_replaces_codes [OF h1 h2] h1 h2 show ?thesis by blast
qed

text \<open>
  Claim C10, as stated, fails when the service returns no codes in the form
  of an empty array: the array is truthy, so the displayed list is replaced by
  the empty one, and no error is shown.
\<close>

theorem empty_array_replaces_codes_counterexample:
  "fst (generate (service ''482193'' (Inr (Some []))) [''a1b2'', ''0000'']
     (submitCode (service ''482193'' (Inr (Some []))) None (Some ''482193'')
       (run None [Next [JSAuthenticator smsEntry]]))) = []
   \<and> shownError (snd (generate (service ''482193'' (Inr (Some []))) [''a1b2'', ''0000'']
     (submitCode (service ''482193'' (Inr (Some []))) None (Some ''482193'')
       (run None [Next [JSAuthenticator smsEntry]])))) = None"
  by (simp add: primary_recoveryCodes generate_def setError_def mfa_codes_service
        shownError_def)

text \<open>
  Claim C10, amended. When the call of the service throws, the displayed list
  is the earlier one and the thrown message is reported to the dialog. When
  the call resolves to no value (\<^verbatim>\<open>undefined\<close> or \<^verbatim>\<open>null\<close>), the displayed
  list is the earlier one too. An array the call resolves to, also an empty
  one, replaces the displayed list. In every case the session stays on its
  step.
\<close>

theorem failed_generate_keeps_codes:
  "(mfa_codes db = Inl msg \<longrightarrow>
      fst (generate db prior st) = prior \<and> error (snd (generate db prior st)) = Some msg)
   \<and> (mfa_codes db = Inr None \<longrightarrow> fst (generate db prior st) = prior)
   \<and> fst (generate db prior st) =
       (case mfa_codes db of Inr (Some new) \<Rightarrow> new | Inr None \<Rightarrow> prior | Inl e \<Rightarrow> prior)
   \<and> step (snd (generate db prior st)) = step st"
  by (simp add: generate_def setError_def Let_def split: sum.splits option.splits)

theorem failed_generate_keeps_codes_witness:
  "mfa_codes (service ''482193'' (Inl ''Failed to fetch'')) = Inl ''Failed to fetch''
   \<and> fst (generate (service ''482193'' (Inl ''Failed to fetch'')) [''a1b2'', ''0000''] (init None))
       = [''a1b2'', ''0000'']
   \<and> error (snd (generate (service ''482193'' (Inl ''Failed to fetch'')) [''a1b2'', ''0000'']
        (init None))) = Some ''Failed to fetch''
   \<and> mfa_codes (service ''482193'' (Inr None)) = Inr None
   \<and> fst (generate (service ''482193'' (Inr None)) [''a1b2'', ''0000''] (init None))
       = [''a1b2'', ''0000'']"
proof -
  have h1: "mfa_codes (service ''482193'' (Inl ''Failed to fetch'')) = Inl ''Failed to fetch''"
    by (simp add: service_def)
  have h2: "mfa_codes (service ''482193'' (Inr None)) = Inr None"
    by (simp add: service_def)
  from failed_generate_keeps_codes [where db = "service ''482193'' (Inl ''Failed to fetch'')"
         and msg = "''Failed to fetch''" and prior = "[''a1b2'', ''0000'']" and st = "init None"]
       failed_generate_keeps_codes [where db = "service ''482193'' (Inr None)"
         and prior = "[''a1b2'', ''0000'']" and st = "init None"]
       h1 h2
  show ?thesis by simp
qed

end
